theory Spec2Isabelle
  imports Complex_Main "HOL-Library.Multiset"
begin

section \<open>JavaScript values\<close>

text \<open>
  The query engine works on plain data objects. A number is an IEEE double; the engine
  only compares numbers and tests them for being safe integers, so a finite double is
  modelled by the real it denotes (\<open>+0\<close> and \<open>-0\<close>, which no operation used here tells
  apart, are one value), next to \<open>NaN\<close> and the two infinities.

  A value of an object type carries the identity of the object (a reference number):
  \<open>===\<close> on two objects compares identities, never contents. An array is the list of
  its slots, a slot being an element or a hole (\<open>None\<close>). The association list of an
  object holds its own enumerable properties in enumeration order, with distinct keys;
  what an object inherits through its prototype chain is given by the environment. A
  function value is a reference into the table of function bodies of the environment,
  which are taken to be pure and total.
\<close>

datatype jsnum = NaN | PosInf | NegInf | Fin real

datatype prim = JUndefined | JNull | JBoolean bool | JNumber jsnum | JString string

datatype jsval = Prim prim | JFunction nat | JRef jsobj
and jsobj = JArray jsarray | JObject nat "(string \<times> jsval) list"
and jsarray = Array nat "jsval option list"

text \<open>
  What the host language and the caller provide and the repository only uses: the
  bodies of the caller's functions, the conversion of an object to a primitive
  (\<open>valueOf\<close> / \<open>toString\<close>), the parsing of a string as a number, the printing of a
  number that is not an integer below \<open>10^21\<close>, and, for an object and a key that is
  not an own property of it, the value found along the prototype chain of the object
  (\<open>None\<close> when no prototype has the key).
\<close>

record host =
  call :: "nat \<Rightarrow> jsval \<Rightarrow> jsval"
  ToPrimitive :: "jsval \<Rightarrow> prim"
  StringToNumber :: "string \<Rightarrow> jsnum"
  Number_toString_other :: "jsnum \<Rightarrow> string"
  inherited :: "jsobj \<Rightarrow> string \<Rightarrow> jsval option"

text \<open>
  The members of \<open>Object.prototype\<close> and of \<open>Array.prototype\<close>, each a function of its
  own; \<open>__proto__\<close> reads as the prototype object itself.
\<close>

definition Object_prototype :: "(string \<times> jsval) list" where
  "Object_prototype =
    [(''constructor'', JFunction 1000), (''hasOwnProperty'', JFunction 1001),
     (''isPrototypeOf'', JFunction 1002), (''propertyIsEnumerable'', JFunction 1003),
     (''toLocaleString'', JFunction 1004), (''toString'', JFunction 1005),
     (''valueOf'', JFunction 1006), (''__defineGetter__'', JFunction 1007),
     (''__defineSetter__'', JFunction 1008), (''__lookupGetter__'', JFunction 1009),
     (''__lookupSetter__'', JFunction 1010), (''__proto__'', JRef (JObject 1011 []))]"

definition Array_prototype :: "(string \<times> jsval) list" where
  "Array_prototype =
    [(''constructor'', JFunction 1100), (''at'', JFunction 1101),
     (''concat'', JFunction 1102), (''copyWithin'', JFunction 1103),
     (''entries'', JFunction 1104), (''every'', JFunction 1105),
     (''fill'', JFunction 1106), (''filter'', JFunction 1107), (''find'', JFunction 1108),
     (''findIndex'', JFunction 1109), (''findLast'', JFunction 1110),
     (''findLastIndex'', JFunction 1111), (''flat'', JFunction 1112),
     (''flatMap'', JFunction 1113), (''forEach'', JFunction 1114),
     (''includes'', JFunction 1115), (''indexOf'', JFunction 1116),
     (''join'', JFunction 1117), (''keys'', JFunction 1118),
     (''lastIndexOf'', JFunction 1119), (''map'', JFunction 1120),
     (''pop'', JFunction 1121), (''push'', JFunction 1122), (''reduce'', JFunction 1123),
     (''reduceRight'', JFunction 1124), (''reverse'', JFunction 1125),
     (''shift'', JFunction 1126), (''slice'', JFunction 1127), (''some'', JFunction 1128),
     (''sort'', JFunction 1129), (''splice'', JFunction 1130),
     (''toLocaleString'', JFunction 1131), (''toReversed'', JFunction 1132),
     (''toSorted'', JFunction 1133), (''toSpliced'', JFunction 1134),
     (''toString'', JFunction 1135), (''unshift'', JFunction 1136),
     (''values'', JFunction 1137), (''with'', JFunction 1138),
     (''__proto__'', JRef (JArray (Array 1139 [])))]"

text \<open>
  An environment for concrete runs: plain objects and arrays with the standard
  prototypes, a function table in which every function returns \<open>undefined\<close>, and no
  string that parses as a number.
\<close>

definition plain_host :: host where
  "plain_host = \<lparr>call = (\<lambda>f v. Prim JUndefined), ToPrimitive = (\<lambda>v. JString ''[object Object]''),
     StringToNumber = (\<lambda>s. NaN), Number_toString_other = (\<lambda>n. ''NaN''),
     inherited = (\<lambda>obj k. case obj of
                    JObject r kvs \<Rightarrow> map_of Object_prototype k
                  | JArray a \<Rightarrow> map_of (Array_prototype @ Object_prototype) k)\<rparr>"

fun ref_of :: "jsobj \<Rightarrow> nat" where
  "ref_of (JArray (Array r vs)) = r"
| "ref_of (JObject r kvs) = r"

subsection \<open>Strict equality and truthiness\<close>

fun number_eq :: "jsnum \<Rightarrow> jsnum \<Rightarrow> bool" where
  "number_eq NaN y = False"
| "number_eq x NaN = False"
| "number_eq x y = (x = y)"

fun prim_strict_eq :: "prim \<Rightarrow> prim \<Rightarrow> bool" where
  "prim_strict_eq (JNumber x) (JNumber y) = number_eq x y"
| "prim_strict_eq p q = (p = q)"

text \<open>The operator \<open>===\<close>.\<close>

fun strict_eq :: "jsval \<Rightarrow> jsval \<Rightarrow> bool" where
  "strict_eq (Prim p) (Prim q) = prim_strict_eq p q"
| "strict_eq (JFunction f) (JFunction g) = (f = g)"
| "strict_eq (JRef a) (JRef b) = (ref_of a = ref_of b)"
| "strict_eq x y = False"

fun ToBoolean :: "jsval \<Rightarrow> bool" where
  "ToBoolean (Prim JUndefined) = False"
| "ToBoolean (Prim JNull) = False"
| "ToBoolean (Prim (JBoolean b)) = b"
| "ToBoolean (Prim (JNumber n)) = (n \<noteq> NaN \<and> n \<noteq> Fin 0)"
| "ToBoolean (Prim (JString s)) = (s \<noteq> [])"
| "ToBoolean (JFunction f) = True"
| "ToBoolean (JRef a) = True"

subsection \<open>Relational comparison\<close>

fun num_lt :: "jsnum \<Rightarrow> jsnum \<Rightarrow> bool" where
  "num_lt NaN y = False"
| "num_lt x NaN = False"
| "num_lt PosInf y = False"
| "num_lt x PosInf = True"
| "num_lt x NegInf = False"
| "num_lt NegInf y = True"
| "num_lt (Fin a) (Fin b) = (a < b)"

text \<open>Strings compare by code units, lexicographically.\<close>

fun str_lt :: "string \<Rightarrow> string \<Rightarrow> bool" where
  "str_lt [] [] = False"
| "str_lt [] (y # ys) = True"
| "str_lt (x # xs) [] = False"
| "str_lt (x # xs) (y # ys) =
     ((of_char x :: nat) < of_char y \<or> (x = y \<and> str_lt xs ys))"

fun ToNumber :: "host \<Rightarrow> prim \<Rightarrow> jsnum" where
  "ToNumber h JUndefined = NaN"
| "ToNumber h JNull = Fin 0"
| "ToNumber h (JBoolean b) = (if b then Fin 1 else Fin 0)"
| "ToNumber h (JNumber n) = n"
| "ToNumber h (JString s) = StringToNumber h s"

fun to_primitive :: "host \<Rightarrow> jsval \<Rightarrow> prim" where
  "to_primitive h (Prim p) = p"
| "to_primitive h v = ToPrimitive h v"

text \<open>
  The operator \<open><\<close>: two strings compare as strings, everything else as numbers, and a
  comparison with \<open>NaN\<close> is false. \<open>a > b\<close> is \<open>b < a\<close>.
\<close>

definition js_lt :: "host \<Rightarrow> jsval \<Rightarrow> jsval \<Rightarrow> bool" where
  "js_lt h x y =
     (case (to_primitive h x, to_primitive h y) of
        (JString s, JString t) \<Rightarrow> str_lt s t
      | (px, py) \<Rightarrow> num_lt (ToNumber h px) (ToNumber h py))"

definition js_gt :: "host \<Rightarrow> jsval \<Rightarrow> jsval \<Rightarrow> bool" where
  "js_gt h x y = js_lt h y x"

subsection \<open>Properties of objects\<close>

fun show_nat :: "nat \<Rightarrow> string" where
  "show_nat n = (if n < 10 then [''0123456789'' ! n]
     else show_nat (n div 10) @ [''0123456789'' ! (n mod 10)])"

text \<open>The elements of an array under their indices, from index \<open>i\<close> on; a hole has none.\<close>

fun array_entries :: "nat \<Rightarrow> jsval option list \<Rightarrow> (string \<times> jsval) list" where
  "array_entries i [] = []"
| "array_entries i (None # xs) = array_entries (Suc i) xs"
| "array_entries i (Some v # xs) = (show_nat i, v) # array_entries (Suc i) xs"

text \<open>
  \<open>Object.entries\<close>: the own enumerable properties; those of an array are its elements
  under their indices.
\<close>

fun getEntries :: "jsobj \<Rightarrow> (string \<times> jsval) list" where
  "getEntries (JObject r kvs) = kvs"
| "getEntries (JArray (Array r xs)) = array_entries 0 xs"

definition Object_keys :: "jsobj \<Rightarrow> string list" where
  "Object_keys obj = map fst (getEntries obj)"

definition Object_values :: "jsobj \<Rightarrow> jsval list" where
  "Object_values obj = map snd (getEntries obj)"

text \<open>The own properties of an object; an array has its length and its elements.\<close>

fun own_property :: "jsobj \<Rightarrow> string \<Rightarrow> jsval option" where
  "own_property (JObject r kvs) k = map_of kvs k"
| "own_property (JArray (Array r xs)) k =
     (if k = ''length'' then Some (Prim (JNumber (Fin (of_nat (length xs)))))
      else map_of (array_entries 0 xs) k)"

text \<open>
  The read \<open>obj[k]\<close>: the own property, else the one found along the prototype chain,
  else \<open>undefined\<close>.
\<close>

definition get_prop :: "host \<Rightarrow> jsobj \<Rightarrow> string \<Rightarrow> jsval" where
  "get_prop h obj k =
     (case own_property obj k of
        Some v \<Rightarrow> v
      | None \<Rightarrow> (case inherited h obj k of Some v \<Rightarrow> v | None \<Rightarrow> Prim JUndefined))"

text \<open>
  Index \<open>i\<close> of an array: whether the array has the property (its own element, or one
  along the prototype chain), and the read \<open>a[i]\<close>.
\<close>

fun array_length :: "jsarray \<Rightarrow> nat" where
  "array_length (Array r xs) = length xs"

fun array_has :: "host \<Rightarrow> jsarray \<Rightarrow> nat \<Rightarrow> bool" where
  "array_has h (Array r xs) i =
     (case (if i < length xs then xs ! i else None) of
        Some v \<Rightarrow> True
      | None \<Rightarrow> (case inherited h (JArray (Array r xs)) (show_nat i) of
                   Some v \<Rightarrow> True | None \<Rightarrow> False))"

fun array_at :: "host \<Rightarrow> jsarray \<Rightarrow> nat \<Rightarrow> jsval" where
  "array_at h (Array r xs) i =
     (case (if i < length xs then xs ! i else None) of
        Some v \<Rightarrow> v
      | None \<Rightarrow> (case inherited h (JArray (Array r xs)) (show_nat i) of
                   Some v \<Rightarrow> v | None \<Rightarrow> Prim JUndefined))"

subsection \<open>Type guards and array comparison\<close>

definition isNumber :: "jsval \<Rightarrow> bool" where
  "isNumber v = (case v of Prim (JNumber n) \<Rightarrow> True | _ \<Rightarrow> False)"

definition isFunction :: "jsval \<Rightarrow> bool" where
  "isFunction v = (case v of JFunction f \<Rightarrow> True | _ \<Rightarrow> False)"

definition isObject :: "jsval \<Rightarrow> bool" where
  "isObject v = (case v of JRef a \<Rightarrow> True | _ \<Rightarrow> False)"

definition Array_isArray :: "jsval \<Rightarrow> bool" where
  "Array_isArray v = (case v of JRef (JArray a) \<Rightarrow> True | _ \<Rightarrow> False)"

text \<open>
  \<open>a.length === b.length && a.every((v, i) => v === b[i])\<close>. \<open>every\<close> calls the
  function on the indices below the length that \<open>a\<close> has as a property, and on no
  other: a hole of \<open>a\<close> is passed over, and a hole of \<open>b\<close> is read.
\<close>

definition compareArrays :: "host \<Rightarrow> jsarray \<Rightarrow> jsarray \<Rightarrow> bool" where
  "compareArrays h a b =
     (array_length a = array_length b \<and>
      list_all (\<lambda>i. if array_has h a i then strict_eq (array_at h a i) (array_at h b i) else True)
        [0..<array_length a])"

section \<open>The row validator\<close>

text \<open>
  \<open>QueryRowValidator.validate(row, {conditionsObject, ignoreNullValues})\<close> with
  \<open>validateConditions\<close>, and \<open>validateColumnCondition\<close> with \<open>validateInnerObject\<close>.
  The branches of \<open>validateColumnCondition\<close> are in the order of the source: the skip
  of a null condition, then a function, an array, an object, and strict equality last.
\<close>

function validate :: "host \<Rightarrow> bool \<Rightarrow> jsobj \<Rightarrow> jsobj \<Rightarrow> bool"
  and validateColumnCondition :: "host \<Rightarrow> bool \<Rightarrow> jsobj \<Rightarrow> string \<Rightarrow> jsval \<Rightarrow> bool" where
  "validate h ign row conditionsObject =
     list_all (\<lambda>(columnName, condition). validateColumnCondition h ign row columnName condition)
       (getEntries conditionsObject)"
| "validateColumnCondition h ign row columnName condition =
     (if ign \<and> (condition = Prim JNull \<or> condition = Prim JUndefined) then True
      else let cellValue = get_prop h row columnName in
        (case condition of
           JFunction f \<Rightarrow> ToBoolean (call h f cellValue)
         | JRef (JArray cs) \<Rightarrow>
             (case cellValue of JRef (JArray vs) \<Rightarrow> compareArrays h vs cs | _ \<Rightarrow> False)
         | JRef (JObject r kvs) \<Rightarrow>
             (case cellValue of JRef obj \<Rightarrow> validate h ign obj (JObject r kvs) | _ \<Rightarrow> False)
         | Prim p \<Rightarrow> strict_eq cellValue condition))"
  by pat_completeness auto
termination
proof -
  have size_entries: "size c < size cond" if "(k, c) \<in> set (getEntries cond)"
    for k :: string and c :: jsval and cond :: jsobj
  proof (cases cond)
    case (JArray a)
    obtain r xs where a: "a = Array r xs" by (cases a)
    have "Some v \<in> set ys" if "(k, v) \<in> set (array_entries i ys)"
      for i v and ys :: "jsval option list"
      using that by (induction i ys rule: array_entries.induct) auto
    with that JArray a have "Some c \<in> set xs" by simp
    then have "size_option size (Some c) \<le> size_list (size_option size) xs"
      by (rule size_list_estimation') simp
    with JArray a show ?thesis by simp
  next
    case (JObject r kvs)
    with that have "(k, c) \<in> set kvs" by simp
    then have "size_prod (\<lambda>_. 0) size (k, c) \<le> size_list (size_prod (\<lambda>_. 0) size) kvs"
      by (rule size_list_estimation') simp
    with JObject show ?thesis by simp
  qed
  show ?thesis
    by (relation "measure (\<lambda>x. case x of Inl (h, ign, row, c) \<Rightarrow> 2 * size c
                                     | Inr (h, ign, row, k, c) \<Rightarrow> 2 * size c + 1)")
       (auto dest: size_entries)
qed

declare validate.simps [simp del] validateColumnCondition.simps [simp del]

section \<open>Host arrays: slice and sort\<close>

text \<open>
  \<open>Array.prototype.slice(start, end)\<close>, an absent argument being \<open>None\<close>. An index is
  truncated towards zero (\<open>NaN\<close> is 0), a negative one counts from the end, and both
  ends are clipped to the array.
\<close>

fun relative_index :: "nat \<Rightarrow> jsnum \<Rightarrow> nat" where
  "relative_index len NaN = 0"
| "relative_index len NegInf = 0"
| "relative_index len PosInf = len"
| "relative_index len (Fin x) =
     (let i = (if x < 0 then - \<lfloor>- x\<rfloor> else \<lfloor>x\<rfloor>)
      in if i < 0 then nat (max (int len + i) 0) else min (nat i) len)"

definition Array_slice :: "'a list \<Rightarrow> jsnum option \<Rightarrow> jsnum option \<Rightarrow> 'a list" where
  "Array_slice xs start end =
     (let len = length xs;
          k = (case start of None \<Rightarrow> 0 | Some s \<Rightarrow> relative_index len s);
          final = (case end of None \<Rightarrow> len | Some e \<Rightarrow> relative_index len e)
      in take (final - k) (drop k xs))"

text \<open>
  \<open>Array.prototype.sort(comparefn)\<close>. The language requires a stable sort and leaves
  the order open where the comparison function is not consistent; the model is the
  stable insertion sort, which moves an element only past elements it compares greater
  than.
\<close>

fun insert_by :: "('a \<Rightarrow> 'a \<Rightarrow> int) \<Rightarrow> 'a \<Rightarrow> 'a list \<Rightarrow> 'a list" where
  "insert_by cmp x [] = [x]"
| "insert_by cmp x (y # ys) = (if cmp x y > 0 then y # insert_by cmp x ys else x # y # ys)"

definition Array_sort :: "('a \<Rightarrow> 'a \<Rightarrow> int) \<Rightarrow> 'a list \<Rightarrow> 'a list" where
  "Array_sort cmp xs = foldr (insert_by cmp) xs []"

section \<open>Sorting by properties\<close>

text \<open>\<open>sortByProperty(property)\<close>: a leading \<open>-\<close> is cut off and turns the order round.\<close>

definition sortByProperty :: "host \<Rightarrow> string \<Rightarrow> jsobj \<Rightarrow> jsobj \<Rightarrow> int" where
  "sortByProperty h property a b =
     (let (sortOrder, property') =
            (case property of
               c # rest \<Rightarrow> if c = CHR ''-'' then (- 1, rest) else (1, property)
             | [] \<Rightarrow> (1, property));
          result = (if js_lt h (get_prop h a property') (get_prop h b property') then - 1
                    else if js_gt h (get_prop h a property') (get_prop h b property') then 1
                    else 0)
      in result * sortOrder)"

text \<open>
  \<open>sortByProperties(...props)\<close>: the loop
  \<open>while (result === 0 && i < numberOfProperties)\<close> with its two variables.
\<close>

function sortByProperties_loop ::
  "host \<Rightarrow> string list \<Rightarrow> jsobj \<Rightarrow> jsobj \<Rightarrow> int \<Rightarrow> nat \<Rightarrow> int" where
  "sortByProperties_loop h props obj1 obj2 result i =
     (if result = 0 \<and> i < length props
      then sortByProperties_loop h props obj1 obj2 (sortByProperty h (props ! i) obj1 obj2) (i + 1)
      else result)"
  by pat_completeness auto
termination
  by (relation "measure (\<lambda>(h, props, obj1, obj2, result, i). length props - i)") auto

declare sortByProperties_loop.simps [simp del]

definition sortByProperties :: "host \<Rightarrow> string list \<Rightarrow> jsobj \<Rightarrow> jsobj \<Rightarrow> int" where
  "sortByProperties h props obj1 obj2 = sortByProperties_loop h props obj1 obj2 0 0"

section \<open>Validation of numeric arguments\<close>

datatype error = InvalidArgumentError
  (err_method: string) (err_param: nat) (err_argument: jsval) (err_expected: string)

record ParameterConfig =
  cfg_value :: "jsnum option"
  cfg_index :: nat

text \<open>The metadata that the parameter decorators of one method leave for it.\<close>

record metadata =
  minParams :: "ParameterConfig list"
  maxParams :: "ParameterConfig list"
  integerParams :: "ParameterConfig list"

definition no_metadata :: metadata where
  "no_metadata = \<lparr>minParams = [], maxParams = [], integerParams = []\<rparr>"

definition min_decorator :: "jsnum \<Rightarrow> nat \<Rightarrow> metadata \<Rightarrow> metadata" where
  "min_decorator v parameterIndex md =
     md\<lparr>minParams := minParams md @ [\<lparr>cfg_value = Some v, cfg_index = parameterIndex\<rparr>]\<rparr>"

definition max_decorator :: "jsnum \<Rightarrow> nat \<Rightarrow> metadata \<Rightarrow> metadata" where
  "max_decorator v parameterIndex md =
     md\<lparr>maxParams := maxParams md @ [\<lparr>cfg_value = Some v, cfg_index = parameterIndex\<rparr>]\<rparr>"

definition integer_decorator :: "nat \<Rightarrow> metadata \<Rightarrow> metadata" where
  "integer_decorator parameterIndex md =
     md\<lparr>integerParams := integerParams md @ [\<lparr>cfg_value = None, cfg_index = parameterIndex\<rparr>]\<rparr>"

fun show_int :: "int \<Rightarrow> string" where
  "show_int i = (if i < 0 then CHR ''-'' # show_nat (nat (- i)) else show_nat (nat i))"

text \<open>A value inside a template literal, for the values a \<open>ParameterConfig\<close> can hold.\<close>

fun template_number :: "host \<Rightarrow> jsnum option \<Rightarrow> string" where
  "template_number h None = ''undefined''"
| "template_number h (Some NaN) = ''NaN''"
| "template_number h (Some PosInf) = ''Infinity''"
| "template_number h (Some NegInf) = ''-Infinity''"
| "template_number h (Some (Fin x)) =
     (if of_int \<lfloor>x\<rfloor> = x \<and> \<bar>x\<bar> < 10 ^ 21 then show_int \<lfloor>x\<rfloor>
      else Number_toString_other h (Fin x))"

text \<open>\<open>arguments[i]\<close>\<close>

definition argument_at :: "jsval list \<Rightarrow> nat \<Rightarrow> jsval" where
  "argument_at args i = (if i < length args then args ! i else Prim JUndefined)"

text \<open>The configured bound as a value: \<open>parameter.value\<close> may be absent.\<close>

definition bound_value :: "ParameterConfig \<Rightarrow> jsval" where
  "bound_value p = (case cfg_value p of None \<Rightarrow> Prim JUndefined | Some v \<Rightarrow> Prim (JNumber v))"

fun checkMinParams :: "host \<Rightarrow> string \<Rightarrow> ParameterConfig list \<Rightarrow> jsval list \<Rightarrow> error + unit" where
  "checkMinParams h methodName [] actualArguments = Inr ()"
| "checkMinParams h methodName (parameter # params) actualArguments =
     (let actualValue = argument_at actualArguments (cfg_index parameter);
          minValue = bound_value parameter
      in if \<not> isNumber actualValue \<or> js_lt h actualValue minValue
         then Inl (InvalidArgumentError methodName (cfg_index parameter) actualValue
                    (''equal or greater than '' @ template_number h (cfg_value parameter)))
         else checkMinParams h methodName params actualArguments)"

fun checkMaxParams :: "host \<Rightarrow> string \<Rightarrow> ParameterConfig list \<Rightarrow> jsval list \<Rightarrow> error + unit" where
  "checkMaxParams h methodName [] actualArguments = Inr ()"
| "checkMaxParams h methodName (parameter # params) actualArguments =
     (let actualValue = argument_at actualArguments (cfg_index parameter);
          maxValue = bound_value parameter
      in if \<not> isNumber actualValue \<or> js_gt h actualValue maxValue
         then Inl (InvalidArgumentError methodName (cfg_index parameter) actualValue
                    (''equal or less than '' @ template_number h (cfg_value parameter)))
         else checkMaxParams h methodName params actualArguments)"

text \<open>\<open>Number.isSafeInteger\<close>\<close>

fun Number_isSafeInteger :: "jsval \<Rightarrow> bool" where
  "Number_isSafeInteger (Prim (JNumber (Fin x))) = (of_int \<lfloor>x\<rfloor> = x \<and> \<bar>x\<bar> \<le> 2 ^ 53 - 1)"
| "Number_isSafeInteger v = False"

fun checkIntegerParams :: "string \<Rightarrow> ParameterConfig list \<Rightarrow> jsval list \<Rightarrow> error + unit" where
  "checkIntegerParams methodName [] actualArguments = Inr ()"
| "checkIntegerParams methodName (parameter # params) actualArguments =
     (let actualValue = argument_at actualArguments (cfg_index parameter)
      in if \<not> Number_isSafeInteger actualValue
         then Inl (InvalidArgumentError methodName (cfg_index parameter) actualValue ''an integer'')
         else checkIntegerParams methodName params actualArguments)"

text \<open>
  The method decorator \<open>validateNumbers\<close>: the three checks in the order of the
  source, then the method itself on the same arguments.
\<close>

definition validateNumbers ::
  "host \<Rightarrow> string \<Rightarrow> metadata \<Rightarrow> (jsval list \<Rightarrow> 's \<Rightarrow> 's) \<Rightarrow> jsval list \<Rightarrow> 's \<Rightarrow> error + 's" where
  "validateNumbers h propertyName md method arguments this =
     (case checkMinParams h propertyName (minParams md) arguments of
        Inl e \<Rightarrow> Inl e
      | Inr u \<Rightarrow>
     (case checkMaxParams h propertyName (maxParams md) arguments of
        Inl e \<Rightarrow> Inl e
      | Inr u \<Rightarrow>
     (case checkIntegerParams propertyName (integerParams md) arguments of
        Inl e \<Rightarrow> Inl e
      | Inr u \<Rightarrow> Inr (method arguments this))))"

section \<open>The query\<close>

text \<open>
  The fields of \<open>Query\<close>: \<open>#rows\<close>, \<open>#columns\<close>, \<open>#startAt\<close>, \<open>#limit\<close> (absent
  until \<open>limit\<close> sets it) and \<open>ignoreNullValues\<close>. A method that changes the query
  returns the new state; a method that returns a result returns it with the state it
  leaves behind.
\<close>

record query =
  rows :: "jsobj list"
  columns :: "string list"
  startAt :: jsnum
  limitValue :: "jsnum option"
  ignoreNullValues :: bool

definition Query_from :: "jsobj list \<Rightarrow> query" where
  "Query_from input =
     \<lparr>rows = input, columns = [], startAt = Fin 0, limitValue = None, ignoreNullValues = False\<rparr>"

text \<open>\<open>select\<close> takes one column or an array of columns.\<close>

datatype select_arg = Column string | Columns "string list"

definition Query_select :: "select_arg \<Rightarrow> query \<Rightarrow> query" where
  "Query_select cols q =
     q\<lparr>columns := (case cols of Columns cs \<Rightarrow> cs | Column c \<Rightarrow> [c])\<rparr>"

text \<open>The argument of \<open>where\<close>: a function over a row, or an object of conditions.\<close>

datatype condition = Callback nat | Conditions jsobj

definition Query_validateRow :: "host \<Rightarrow> jsobj \<Rightarrow> jsobj \<Rightarrow> query \<Rightarrow> bool" where
  "Query_validateRow h row cond q = validate h (ignoreNullValues q) row cond"

definition Query_filterRows :: "host \<Rightarrow> condition \<Rightarrow> query \<Rightarrow> query" where
  "Query_filterRows h cond q =
     q\<lparr>rows := filter (\<lambda>row. case cond of
                                Callback f \<Rightarrow> ToBoolean (call h f (JRef row))
                              | Conditions c \<Rightarrow> Query_validateRow h row c q)
                    (rows q)\<rparr>"

definition Query_where :: "host \<Rightarrow> condition \<Rightarrow> query \<Rightarrow> query" where
  "Query_where h cond q = Query_filterRows h cond q"

definition Query_filterWhere :: "host \<Rightarrow> condition \<Rightarrow> query \<Rightarrow> query" where
  "Query_filterWhere h cond q =
     (Query_filterRows h cond (q\<lparr>ignoreNullValues := True\<rparr>))\<lparr>ignoreNullValues := False\<rparr>"

definition Query_orderBy :: "host \<Rightarrow> string list \<Rightarrow> query \<Rightarrow> query" where
  "Query_orderBy h cols q = q\<lparr>rows := Array_sort (sortByProperties h cols) (rows q)\<rparr>"

text \<open>\<open>this.#rows.slice(this.#startAt).slice(0, this.#limit)\<close>\<close>

definition Query_getLimitedRows :: "query \<Rightarrow> jsobj list \<times> query" where
  "Query_getLimitedRows q =
     (Array_slice (Array_slice (rows q) (Some (startAt q)) None) (Some (Fin 0)) (limitValue q), q)"

definition Query_count :: "query \<Rightarrow> nat \<times> query" where
  "Query_count q = (let (limited, q1) = Query_getLimitedRows q in (length limited, q1))"

definition Query_exists :: "query \<Rightarrow> bool \<times> query" where
  "Query_exists q = (let (n, q1) = Query_count q in (n > 0, q1))"

text \<open>The result \<open>null\<close> of \<open>first\<close> and \<open>last\<close> is \<open>None\<close>.\<close>

definition Query_first :: "query \<Rightarrow> jsobj option \<times> query" where
  "Query_first q =
     (let (limited, q1) = Query_getLimitedRows q
      in (if length limited \<noteq> 0 then Some (limited ! 0) else None, q1))"

text \<open>
  \<open>rows[this.count() - 1] ?? null\<close>: the index is \<open>-1\<close> on an empty window, where the
  read gives \<open>undefined\<close>.
\<close>

definition Query_last :: "query \<Rightarrow> jsobj option \<times> query" where
  "Query_last q =
     (let (limited, q1) = Query_getLimitedRows q;
          (n, q2) = Query_count q1;
          i = int n - 1
      in (if 0 \<le> i \<and> i < int (length limited) then Some (limited ! nat i) else None, q2))"

definition Query_all :: "query \<Rightarrow> jsobj list \<times> query" where
  "Query_all q = Query_getLimitedRows q"

text \<open>
  The result of \<open>getFirstColumn\<close> is a column name, \<open>null\<close>, or the \<open>undefined\<close> that
  \<open>Object.keys(firstObject)[0]\<close> reads from an object without keys; both of the latter
  are \<open>None\<close>.
\<close>

definition Query_getFirstColumn :: "query \<Rightarrow> string option \<times> query" where
  "Query_getFirstColumn q =
     (if length (columns q) \<noteq> 0 then (Some (columns q ! 0), q)
      else let (firstObject, q1) = Query_first q
           in (case firstObject of
                 Some obj \<Rightarrow> (case Object_keys obj of k # ks \<Rightarrow> Some k | [] \<Rightarrow> None)
               | None \<Rightarrow> None, q1))"

text \<open>\<open>v ?? false\<close>\<close>

definition or_false :: "jsval \<Rightarrow> jsval" where
  "or_false v = (if v = Prim JNull \<or> v = Prim JUndefined then Prim (JBoolean False) else v)"

text \<open>
  In \<open>firstObject && firstColumn\<close> and in \<open>!firstColumn\<close> the column name is a
  condition: \<open>null\<close>, \<open>undefined\<close> and the empty string are falsy.
\<close>

definition Query_scalar :: "host \<Rightarrow> query \<Rightarrow> jsval \<times> query" where
  "Query_scalar h q =
     (let (firstObject, q1) = Query_first q;
          (firstColumn, q2) = Query_getFirstColumn q1
      in (case firstObject of
            Some obj \<Rightarrow>
              (case firstColumn of
                 Some k \<Rightarrow> if k \<noteq> [] then or_false (get_prop h obj k) else Prim (JBoolean False)
               | None \<Rightarrow> Prim (JBoolean False))
          | None \<Rightarrow> Prim (JBoolean False), q2))"

definition Query_column :: "host \<Rightarrow> query \<Rightarrow> jsval list \<times> query" where
  "Query_column h q =
     (let (firstColumn, q1) = Query_getFirstColumn q
      in (case firstColumn of
            None \<Rightarrow> ([], q1)
          | Some k \<Rightarrow>
              if k = [] then ([], q1)
              else let (limited, q2) = Query_getLimitedRows q1
                   in (map (\<lambda>row. get_prop h row k) limited, q2)))"

definition Query_values :: "host \<Rightarrow> query \<Rightarrow> jsval list list \<times> query" where
  "Query_values h q =
     (let (limited, q1) = Query_getLimitedRows q
      in (map (\<lambda>row. if length (columns q1) \<noteq> 0
                       then map (\<lambda>column. get_prop h row column) (columns q1)
                       else Object_values row) limited, q1))"

text \<open>
  \<open>skip\<close> and \<open>limit\<close>, each behind \<open>@validateNumbers\<close> with the parameter decorators
  \<open>@integer @min(0)\<close> on parameter 0; parameter decorators apply from right to left.
  The parameter has the type \<open>number\<close>.
\<close>

definition skip_limit_metadata :: metadata where
  "skip_limit_metadata = integer_decorator 0 (min_decorator (Fin 0) 0 no_metadata)"

definition Query_skip :: "host \<Rightarrow> jsnum \<Rightarrow> query \<Rightarrow> error + query" where
  "Query_skip h numberOfRows q =
     validateNumbers h ''skip'' skip_limit_metadata
       (\<lambda>args this. this\<lparr>startAt := numberOfRows\<rparr>) [Prim (JNumber numberOfRows)] q"

definition Query_limit :: "host \<Rightarrow> jsnum \<Rightarrow> query \<Rightarrow> error + query" where
  "Query_limit h limit q =
     validateNumbers h ''limit'' skip_limit_metadata
       (\<lambda>args this. this\<lparr>limitValue := Some limit\<rparr>) [Prim (JNumber limit)] q"

section \<open>Sequences of calls\<close>

text \<open>
  A chained call on a query. A call that throws leaves the object as it was, and the
  caller that catches the error still holds it.
\<close>

datatype operation =
    Select select_arg
  | Where condition
  | FilterWhere condition
  | OrderBy "string list"
  | Skip jsnum
  | Limit jsnum

fun step :: "host \<Rightarrow> operation \<Rightarrow> query \<Rightarrow> error + query" where
  "step h (Select cols) q = Inr (Query_select cols q)"
| "step h (Where c) q = Inr (Query_where h c q)"
| "step h (FilterWhere c) q = Inr (Query_filterWhere h c q)"
| "step h (OrderBy cols) q = Inr (Query_orderBy h cols q)"
| "step h (Skip n) q = Query_skip h n q"
| "step h (Limit n) q = Query_limit h n q"

definition state_after :: "host \<Rightarrow> query \<Rightarrow> operation \<Rightarrow> query" where
  "state_after h q op = (case step h op q of Inl e \<Rightarrow> q | Inr q' \<Rightarrow> q')"

definition run :: "host \<Rightarrow> operation list \<Rightarrow> query \<Rightarrow> query" where
  "run h ops q = foldl (state_after h) q ops"

section \<open>Arrays without holes\<close>

definition no_holes :: "jsarray \<Rightarrow> bool" where
  "no_holes a = (case a of Array r xs \<Rightarrow> list_all (\<lambda>x. x \<noteq> None) xs)"

section \<open>Consistent comparison\<close>


section \<open>Auxiliary facts\<close>

lemma compareArrays_iff:
  "compareArrays h a b \<longleftrightarrow>
     array_length a = array_length b \<and>
     (\<forall>i<array_length a. array_has h a i \<longrightarrow> strict_eq (array_at h a i) (array_at h b i))"
  by (auto simp: compareArrays_def list_all_iff)

lemma array_has_no_holes:
  assumes "no_holes a" and "i < array_length a"
  shows "array_has h a i"
proof -
  obtain r xs where a: "a = Array r xs" by (cases a)
  with assms have "i < length xs" and "xs ! i \<noteq> None"
    by (simp_all add: no_holes_def list_all_length)
  then obtain v where "xs ! i = Some v" by blast
  with a \<open>i < length xs\<close> show ?thesis by simp
qed

lemma compareArrays_no_holes:
  "no_holes a \<Longrightarrow>
   compareArrays h a b \<longleftrightarrow>
     array_length a = array_length b \<and>
     (\<forall>i<array_length b. strict_eq (array_at h a i) (array_at h b i))"
  by (auto simp: compareArrays_iff array_has_no_holes)

text \<open>What \<open>validateColumnCondition\<close> computes, holes of the cell included.\<close>

lemma validateColumnCondition_dispatch:
  "validateColumnCondition h ign r k ck \<longleftrightarrow>
     (if ign \<and> (ck = Prim JNull \<or> ck = Prim JUndefined) then True
      else if isFunction ck then (\<exists>f. ck = JFunction f \<and> ToBoolean (call h f (get_prop h r k)))
      else if Array_isArray ck then
        (\<exists>a b. get_prop h r k = JRef (JArray a) \<and> ck = JRef (JArray b) \<and> compareArrays h a b)
      else if isObject ck then
        (\<exists>obj cobj. get_prop h r k = JRef obj \<and> ck = JRef cobj \<and> validate h ign obj cobj)
      else strict_eq (get_prop h r k) ck)"
proof -
  define cell where "cell = get_prop h r k"
  show ?thesis
    unfolding validateColumnCondition.simps [of h ign r k ck] cell_def [symmetric] Let_def
    by (cases ck; cases cell)
       (auto simp: isFunction_def Array_isArray_def isObject_def split: jsobj.splits)
qed

lemma get_prop_absent:
  "own_property r k = None \<Longrightarrow> inherited h r k = None \<Longrightarrow> get_prop h r k = Prim JUndefined"
  by (simp add: get_prop_def)

lemma get_prop_inherited:
  "own_property r k = None \<Longrightarrow> inherited h r k = Some v \<Longrightarrow> get_prop h r k = v"
  by (simp add: get_prop_def)

lemma get_prop_own: "own_property r k = Some v \<Longrightarrow> get_prop h r k = v"
  by (simp add: get_prop_def)

lemma inherited_plain_object:
  "inherited plain_host (JObject r kvs) k = map_of Object_prototype k"
  by (simp add: plain_host_def)

lemma inherited_plain_array:
  "inherited plain_host (JArray a) k = map_of (Array_prototype @ Object_prototype) k"
  by (simp add: plain_host_def)

lemma validate_single:
  "validate h ign r (JObject ref [(k, c)]) = validateColumnCondition h ign r k c"
  by (simp add: validate.simps)

lemma rows_filterRows_Conditions:
  "rows (Query_filterRows h (Conditions c) q) =
     filter (\<lambda>r. validate h (ignoreNullValues q) r c) (rows q)"
  by (simp add: Query_filterRows_def Query_validateRow_def)

lemma rows_where_Conditions:
  "rows (Query_where h (Conditions c) q) =
     filter (\<lambda>r. validate h (ignoreNullValues q) r c) (rows q)"
  by (simp add: Query_where_def rows_filterRows_Conditions)

lemma rows_filterWhere_Conditions:
  "rows (Query_filterWhere h (Conditions c) q) = filter (\<lambda>r. validate h True r c) (rows q)"
  by (simp add: Query_filterWhere_def rows_filterRows_Conditions)

lemma strict_eq_undefined: "strict_eq v (Prim JUndefined) \<longleftrightarrow> v = Prim JUndefined"
proof (cases v)
  case (Prim p)
  then show ?thesis by (cases p) simp_all
qed simp_all

lemma strict_eq_null: "strict_eq v (Prim JNull) \<longleftrightarrow> v = Prim JNull"
proof (cases v)
  case (Prim p)
  then show ?thesis by (cases p) simp_all
qed simp_all

lemma relative_index_of_nat: "relative_index len (Fin (real n)) = min n len"
  by (simp add: Let_def)

lemma relative_index_zero: "relative_index len (Fin 0) = 0"
  using relative_index_of_nat [of len 0] by simp

lemma slice_from: "Array_slice xs (Some (Fin (real s))) None = drop s xs"
  by (simp add: Array_slice_def relative_index_of_nat Let_def min_def)

lemma slice_upto: "Array_slice xs (Some (Fin 0)) (Some (Fin (real l))) = take l xs"
  by (simp add: Array_slice_def relative_index_of_nat relative_index_zero Let_def min_def)

lemma slice_upto_absent: "Array_slice xs (Some (Fin 0)) None = xs"
  by (simp add: Array_slice_def relative_index_zero Let_def)

lemma take_drop_range:
  "take l (drop s xs) = map (\<lambda>i. xs ! i) [s..<min (s + l) (length xs)]"
  by (auto simp: list_eq_iff_nth_eq min_def)

lemma checks_skip:
  "validateNumbers h name skip_limit_metadata method [Prim (JNumber n)] q =
     (if num_lt n (Fin 0)
      then Inl (InvalidArgumentError name 0 (Prim (JNumber n)) ''equal or greater than 0'')
      else if \<not> Number_isSafeInteger (Prim (JNumber n))
      then Inl (InvalidArgumentError name 0 (Prim (JNumber n)) ''an integer'')
      else Inr (method [Prim (JNumber n)] q))"
  by (simp add: validateNumbers_def skip_limit_metadata_def integer_decorator_def
      min_decorator_def no_metadata_def argument_at_def bound_value_def isNumber_def js_lt_def
      Let_def)

lemma snd_getLimitedRows: "snd (Query_getLimitedRows q) = q"
  by (simp add: Query_getLimitedRows_def)

lemma snd_count: "snd (Query_count q) = q"
  by (simp add: Query_count_def Query_getLimitedRows_def)

lemma snd_first: "snd (Query_first q) = q"
  by (simp add: Query_first_def Query_getLimitedRows_def)

lemma snd_getFirstColumn: "snd (Query_getFirstColumn q) = q"
  by (simp add: Query_getFirstColumn_def Query_first_def Query_getLimitedRows_def)

lemma mset_insert_by: "mset (insert_by cmp x ys) = add_mset x (mset ys)"
  by (induction ys) simp_all

lemma mset_Array_sort: "mset (Array_sort cmp xs) = mset xs"
  by (induction xs) (simp_all add: Array_sort_def mset_insert_by)

lemma length_Array_sort: "length (Array_sort cmp xs) = length xs"
  using mset_Array_sort [of cmp xs] by (metis size_mset)

lemma rows_skip: "Query_skip h n q = Inr q' \<Longrightarrow> rows q' = rows q"
  by (auto simp: Query_skip_def validateNumbers_def split: sum.splits)

lemma rows_limit: "Query_limit h n q = Inr q' \<Longrightarrow> rows q' = rows q"
  by (auto simp: Query_limit_def validateNumbers_def split: sum.splits)

lemma length_rows_filterRows: "length (rows (Query_filterRows h c q)) \<le> length (rows q)"
  by (simp add: Query_filterRows_def)

lemma length_rows_state_after: "length (rows (state_after h q op)) \<le> length (rows q)"
proof (cases op)
  case (Skip n)
  then show ?thesis by (auto simp: state_after_def split: sum.splits dest: rows_skip)
next
  case (Limit n)
  then show ?thesis by (auto simp: state_after_def split: sum.splits dest: rows_limit)
next
  case (FilterWhere c)
  have "length (rows (Query_filterRows h c (q\<lparr>ignoreNullValues := True\<rparr>))) \<le> length (rows q)"
    using length_rows_filterRows [of h c "q\<lparr>ignoreNullValues := True\<rparr>"] by simp
  with FilterWhere show ?thesis by (simp add: state_after_def Query_filterWhere_def)
qed (simp_all add: state_after_def Query_select_def Query_where_def
      Query_orderBy_def length_Array_sort length_rows_filterRows)

lemma length_rows_run: "length (rows (run h ops q)) \<le> length (rows q)"
proof (induction ops arbitrary: q)
  case Nil
  then show ?case by (simp add: run_def)
next
  case (Cons op ops)
  have "length (rows (run h ops (state_after h q op))) \<le> length (rows (state_after h q op))"
    by (rule Cons.IH)
  also have "\<dots> \<le> length (rows q)" by (rule length_rows_state_after)
  finally show ?case by (simp add: run_def)
qed

lemma ignoreNullValues_state_after:
  "\<not> ignoreNullValues q \<Longrightarrow> \<not> ignoreNullValues (state_after h q op)"
  by (cases op)
     (auto simp: state_after_def Query_select_def Query_where_def Query_filterRows_def
       Query_filterWhere_def Query_orderBy_def Query_skip_def Query_limit_def
       validateNumbers_def split: sum.splits)

text \<open>Between calls \<open>ignoreNullValues\<close> is false: only \<open>filterWhere\<close> sets it, and resets it.\<close>

lemma ignoreNullValues_run: "\<not> ignoreNullValues (run h ops (Query_from input))"
proof -
  have "\<not> ignoreNullValues q \<Longrightarrow> \<not> ignoreNullValues (run h ops q)" for q
    unfolding run_def
    by (induction ops arbitrary: q) (simp_all add: ignoreNullValues_state_after)
  then show ?thesis by (simp add: Query_from_def)
qed

lemma getLimitedRows_all: "Query_getLimitedRows q = (fst (Query_all q), q)"
  by (simp add: Query_all_def Query_getLimitedRows_def)


















section \<open>The condition matcher\<close>

text \<open>
  C1, as the code has it. A row matches a conditions object iff every entry of the
  conditions object is satisfied, an entry being decided by the first rule that
  applies: a null or undefined condition is skipped when nulls are ignored; a function
  decides by the truthiness of its result on the cell; an array asks for an array of
  the same length whose element at every index is \<open>===\<close> to the element of the
  condition there (this for cells that are arrays without holes); an object asks for
  an object that matches it in the same mode; anything else is compared with \<open>===\<close>.
  Only the keys of the conditions object are looked at. The cell is the read \<open>r[k]\<close>:
  a key that the row neither has nor inherits reads as \<open>undefined\<close>, and a key that
  the row inherits reads as the inherited value.
\<close>

theorem validate_dispatch:
  assumes "\<forall>(k, ck) \<in> set (getEntries c).
             \<forall>a. Array_isArray ck \<and> get_prop h r k = JRef (JArray a) \<longrightarrow> no_holes a"
  shows "(validate h ign r c \<longleftrightarrow>
     (\<forall>(k, ck) \<in> set (getEntries c).
        (if ign \<and> (ck = Prim JNull \<or> ck = Prim JUndefined) then True
         else if isFunction ck then (\<exists>f. ck = JFunction f \<and> ToBoolean (call h f (get_prop h r k)))
         else if Array_isArray ck then
           (\<exists>a b. get_prop h r k = JRef (JArray a) \<and> ck = JRef (JArray b) \<and>
              array_length a = array_length b \<and>
              (\<forall>i<array_length b. strict_eq (array_at h a i) (array_at h b i)))
         else if isObject ck then
           (\<exists>obj cobj. get_prop h r k = JRef obj \<and> ck = JRef cobj \<and> validate h ign obj cobj)
         else strict_eq (get_prop h r k) ck)))
   \<and> (own_property r k' = None \<and> inherited h r k' = None \<longrightarrow> get_prop h r k' = Prim JUndefined)
   \<and> (own_property r k' = None \<and> inherited h r k' = Some v \<longrightarrow> get_prop h r k' = v)"
proof -
  have "validateColumnCondition h ign r k ck \<longleftrightarrow>
     (if ign \<and> (ck = Prim JNull \<or> ck = Prim JUndefined) then True
      else if isFunction ck then (\<exists>f. ck = JFunction f \<and> ToBoolean (call h f (get_prop h r k)))
      else if Array_isArray ck then
        (\<exists>a b. get_prop h r k = JRef (JArray a) \<and> ck = JRef (JArray b) \<and>
           array_length a = array_length b \<and>
           (\<forall>i<array_length b. strict_eq (array_at h a i) (array_at h b i)))
      else if isObject ck then
        (\<exists>obj cobj. get_prop h r k = JRef obj \<and> ck = JRef cobj \<and> validate h ign obj cobj)
      else strict_eq (get_prop h r k) ck)"
    if "(k, ck) \<in> set (getEntries c)" for k ck
  proof -
    have holes: "no_holes a" if "get_prop h r k = JRef (JArray a)" "ck = JRef (JArray b)" for a b
      using assms \<open>(k, ck) \<in> set (getEntries c)\<close> that by (auto simp: Array_isArray_def)
    have arr: "(\<exists>a b. get_prop h r k = JRef (JArray a) \<and> ck = JRef (JArray b) \<and> compareArrays h a b) =
        (\<exists>a b. get_prop h r k = JRef (JArray a) \<and> ck = JRef (JArray b) \<and>
           array_length a = array_length b \<and>
           (\<forall>i<array_length b. strict_eq (array_at h a i) (array_at h b i)))"
      using holes compareArrays_no_holes [of _ h] by blast
    show ?thesis
      by (simp only: validateColumnCondition_dispatch arr)
  qed
  moreover have "validate h ign r c \<longleftrightarrow>
      (\<forall>(k, ck) \<in> set (getEntries c). validateColumnCondition h ign r k ck)"
    by (simp add: validate.simps list_all_iff)
  ultimately have "validate h ign r c \<longleftrightarrow>
     (\<forall>(k, ck) \<in> set (getEntries c).
        (if ign \<and> (ck = Prim JNull \<or> ck = Prim JUndefined) then True
         else if isFunction ck then (\<exists>f. ck = JFunction f \<and> ToBoolean (call h f (get_prop h r k)))
         else if Array_isArray ck then
           (\<exists>a b. get_prop h r k = JRef (JArray a) \<and> ck = JRef (JArray b) \<and>
              array_length a = array_length b \<and>
              (\<forall>i<array_length b. strict_eq (array_at h a i) (array_at h b i)))
         else if isObject ck then
           (\<exists>obj cobj. get_prop h r k = JRef obj \<and> ck = JRef cobj \<and> validate h ign obj cobj)
         else strict_eq (get_prop h r k) ck))"
    by (simp add: case_prod_beta' Ball_def cong: if_cong)
  then show ?thesis
    by (simp add: get_prop_absent get_prop_inherited)
qed

theorem validate_dispatch_witness:
  "validate plain_host False
     (JObject 1 [(''t'', JRef (JArray (Array 4 [Some (Prim (JString ''a'')), Some (Prim (JString ''b''))]))),
        (''foo'', JRef (JObject 2 [(''bar'', Prim (JString ''b'')),
           (''foo'', JRef (JObject 3 [(''bar'', Prim (JString ''c''))]))]))])
     (JObject 10 [(''t'', JRef (JArray (Array 5 [Some (Prim (JString ''a'')), Some (Prim (JString ''b''))]))),
        (''foo'', JRef (JObject 11 [(''bar'', Prim (JString ''b''))]))])"
proof -
  let ?r = "JObject 1 [(''t'', JRef (JArray (Array 4 [Some (Prim (JString ''a'')), Some (Prim (JString ''b''))]))),
        (''foo'', JRef (JObject 2 [(''bar'', Prim (JString ''b'')),
           (''foo'', JRef (JObject 3 [(''bar'', Prim (JString ''c''))]))]))]"
  let ?c = "JObject 10 [(''t'', JRef (JArray (Array 5 [Some (Prim (JString ''a'')), Some (Prim (JString ''b''))]))),
        (''foo'', JRef (JObject 11 [(''bar'', Prim (JString ''b''))]))]"
  have hyp: "\<forall>(k, ck) \<in> set (getEntries ?c).
      \<forall>a. Array_isArray ck \<and> get_prop plain_host ?r k = JRef (JArray a) \<longrightarrow> no_holes a"
    by (simp add: Array_isArray_def get_prop_def no_holes_def)
  show ?thesis
    using validate_dispatch [OF hyp, of False "''x''" "Prim JNull"]
    by (simp add: validate.simps validateColumnCondition.simps isFunction_def
        Array_isArray_def isObject_def get_prop_def less_Suc_eq)
qed

text \<open>
  C1 as stated fails on a key that the row does not have but inherits: the row
  \<open>{a: 'x'}\<close> has no field \<open>toString\<close>, the read gives the inherited function, not
  \<open>undefined\<close>, and the row does not match \<open>{toString: undefined}\<close>.
\<close>

theorem validate_inherited_counterexample:
  "own_property (JObject 1 [(''a'', Prim (JString ''x''))]) ''toString'' = None
   \<and> get_prop plain_host (JObject 1 [(''a'', Prim (JString ''x''))]) ''toString'' = JFunction 1005
   \<and> \<not> validate plain_host False (JObject 1 [(''a'', Prim (JString ''x''))])
         (JObject 2 [(''toString'', Prim JUndefined)])"
  by (simp add: validate.simps validateColumnCondition.simps get_prop_def
      inherited_plain_object Object_prototype_def)

section \<open>The window of a query\<close>

text \<open>
  C2. With \<open>startAt = s\<close> and a limit that is absent or \<open>l\<close>, \<open>all\<close> returns the rows
  from index \<open>s\<close> up to, not including, index \<open>s + l\<close>, clipped to the rows there are
  (all rows from \<open>s\<close> on when the limit is absent); \<open>count\<close> is the length of that
  result and \<open>exists\<close> says whether it is positive. The window is a function of the
  current \<open>rows\<close>, \<open>startAt\<close> and limit alone.
\<close>

theorem windowing:
  assumes "startAt q = Fin (real s)"
    and "limitValue q = lv"
    and "lv = None \<or> lv = Some (Fin (real l))"
  shows "fst (Query_all q) = (if lv = None then drop s (rows q) else take l (drop s (rows q)))
    \<and> take l (drop s (rows q)) = map (\<lambda>i. rows q ! i) [s..<min (s + l) (length (rows q))]
    \<and> fst (Query_count q) = length (fst (Query_all q))
    \<and> fst (Query_exists q) = (fst (Query_count q) > 0)"
  using assms
  by (auto simp: Query_all_def Query_count_def Query_exists_def Query_getLimitedRows_def
      slice_from slice_upto slice_upto_absent take_drop_range)

theorem windowing_witness:
  "fst (Query_all \<lparr>rows = [JObject 1 [], JObject 2 [], JObject 3 [], JObject 4 []], columns = [],
        startAt = Fin 1, limitValue = Some (Fin 2), ignoreNullValues = False\<rparr>)
     = [JObject 2 [], JObject 3 []]"
  using windowing [of "\<lparr>rows = [JObject 1 [], JObject 2 [], JObject 3 [], JObject 4 []], columns = [],
        startAt = Fin 1, limitValue = Some (Fin 2), ignoreNullValues = False\<rparr>" 1 "Some (Fin 2)" 2]
  by simp

section \<open>Null and undefined conditions\<close>

text \<open>
  C3. \<open>filterWhere({k: null})\<close> leaves the rows as they are, for every field name
  \<open>k\<close>; \<open>where({k: null})\<close>, which runs with \<open>ignoreNullValues\<close> false, keeps exactly
  the rows \<open>r\<close> with \<open>r[k] === null\<close>.
\<close>

theorem null_tolerance:
  "rows (Query_filterWhere h (Conditions (JObject ref [(k, Prim JNull)])) q) = rows q
   \<and> (\<not> ignoreNullValues q \<longrightarrow>
        Query_filterWhere h (Conditions (JObject ref [(k, Prim JNull)])) q = q)
   \<and> (\<not> ignoreNullValues q \<longrightarrow>
        rows (Query_where h (Conditions (JObject ref [(k, Prim JNull)])) q) =
          filter (\<lambda>r. strict_eq (get_prop h r k) (Prim JNull)) (rows q))"
  by (simp add: rows_where_Conditions rows_filterWhere_Conditions validate_single
      validateColumnCondition.simps Query_filterWhere_def Query_filterRows_def
      Query_validateRow_def)

theorem null_tolerance_witness:
  "rows (Query_where plain_host (Conditions (JObject 9 [(''a'', Prim JNull)]))
      (Query_from [JObject 1 [(''a'', Prim JNull)], JObject 2 [(''a'', Prim (JNumber (Fin 1)))]]))
     = [JObject 1 [(''a'', Prim JNull)]]"
  using null_tolerance [of plain_host 9 "''a''"
      "Query_from [JObject 1 [(''a'', Prim JNull)], JObject 2 [(''a'', Prim (JNumber (Fin 1)))]]"]
  by (simp add: Query_from_def get_prop_def)

text \<open>
  C10, as the code has it. In \<open>where\<close>, where \<open>ignoreNullValues\<close> is false, a key
  whose condition is \<open>undefined\<close> is an entry of the conditions object like any other
  and is decided by strict equality: \<open>where({k: undefined})\<close> keeps exactly the rows
  \<open>r\<close> whose read \<open>r[k]\<close> is \<open>undefined\<close>, which are the rows that have the field \<open>k\<close>
  with the value \<open>undefined\<close> and the rows that do not have it and either do not
  inherit it or inherit \<open>undefined\<close>.
\<close>

theorem where_undefined:
  "(k, Prim JUndefined) \<in> set (getEntries (JObject ref [(k, Prim JUndefined)]))
   \<and> validateColumnCondition h False r k (Prim JUndefined) =
       strict_eq (get_prop h r k) (Prim JUndefined)
   \<and> (\<not> ignoreNullValues q \<longrightarrow>
        rows (Query_where h (Conditions (JObject ref [(k, Prim JUndefined)])) q) =
          filter (\<lambda>r. strict_eq (get_prop h r k) (Prim JUndefined)) (rows q))
   \<and> (strict_eq (get_prop h r k) (Prim JUndefined) \<longleftrightarrow>
        own_property r k = Some (Prim JUndefined)
        \<or> own_property r k = None
           \<and> (inherited h r k = None \<or> inherited h r k = Some (Prim JUndefined)))"
  by (auto simp: rows_where_Conditions validate_single validateColumnCondition.simps
      strict_eq_undefined get_prop_def split: option.splits)

theorem where_undefined_witness:
  "rows (Query_where plain_host (Conditions (JObject 9 [(''a'', Prim JUndefined)]))
      (Query_from [JObject 1 [(''b'', Prim JNull)], JObject 2 [(''a'', Prim (JNumber (Fin 1)))],
                   JObject 3 [(''a'', Prim JUndefined)]]))
     = [JObject 1 [(''b'', Prim JNull)], JObject 3 [(''a'', Prim JUndefined)]]"
  using where_undefined [of "''a''" 9 plain_host "JObject 1 []"
      "Query_from [JObject 1 [(''b'', Prim JNull)], JObject 2 [(''a'', Prim (JNumber (Fin 1)))],
                   JObject 3 [(''a'', Prim JUndefined)]]"]
  by (simp add: Query_from_def get_prop_def inherited_plain_object Object_prototype_def)

text \<open>
  C10 as stated fails on a key that a row does not have but inherits: the row
  \<open>{a: 'x'}\<close> has no field \<open>constructor\<close>, and \<open>where({constructor: undefined})\<close> does not
  keep it.
\<close>

theorem where_undefined_inherited_counterexample:
  "own_property (JObject 1 [(''a'', Prim (JString ''x''))]) ''constructor'' = None
   \<and> rows (Query_where plain_host (Conditions (JObject 9 [(''constructor'', Prim JUndefined)]))
        (Query_from [JObject 1 [(''a'', Prim (JString ''x''))]])) = []"
  by (simp add: rows_where_Conditions validate_single validateColumnCondition.simps
      Query_from_def get_prop_def inherited_plain_object Object_prototype_def)

section \<open>Array conditions\<close>

text \<open>
  C7 at a row whose array has a hole. The row is \<open>{k: [ , 'b']}\<close>, an array of length
  2 with no element at index 0, and the condition is \<open>{k: ['a', 'b']}\<close>. The read of
  index 0 of the row's array gives \<open>undefined\<close>, which is not \<open>===\<close> to \<open>'a'\<close>, and
  \<open>where\<close> keeps the row: \<open>every\<close> passes over the hole. With the two arrays the
  other way round \<open>compareArrays\<close> is false.
\<close>

theorem where_array_hole:
  "rows (Query_where plain_host
      (Conditions (JObject 9 [(''k'', JRef (JArray (Array 8 [Some (Prim (JString ''a'')), Some (Prim (JString ''b''))])))]))
      (Query_from [JObject 1 [(''k'', JRef (JArray (Array 5 [None, Some (Prim (JString ''b''))])))]])) =
     [JObject 1 [(''k'', JRef (JArray (Array 5 [None, Some (Prim (JString ''b''))])))]]
   \<and> array_length (Array 5 [None, Some (Prim (JString ''b''))]) = 2
   \<and> array_at plain_host (Array 5 [None, Some (Prim (JString ''b''))]) 0 = Prim JUndefined
   \<and> \<not> strict_eq (array_at plain_host (Array 5 [None, Some (Prim (JString ''b''))]) 0)
         (Prim (JString ''a''))
   \<and> compareArrays plain_host (Array 5 [None, Some (Prim (JString ''b''))])
         (Array 8 [Some (Prim (JString ''a'')), Some (Prim (JString ''b''))])
   \<and> \<not> compareArrays plain_host (Array 8 [Some (Prim (JString ''a'')), Some (Prim (JString ''b''))])
         (Array 5 [None, Some (Prim (JString ''b''))])"
proof -
  have 0: "show_nat 0 = ''0''" and 1: "show_nat 1 = ''1''" by simp_all
  have inh: "inherited plain_host (JArray a) ''0'' = None"
    "inherited plain_host (JArray a) ''1'' = None" for a
    by (simp_all add: inherited_plain_array Array_prototype_def Object_prototype_def)
  have up: "[0..<2] = [0, Suc 0]" by (simp add: upt_rec)
  show ?thesis
    by (simp add: rows_where_Conditions validate_single validateColumnCondition.simps
        Query_from_def get_prop_def compareArrays_def 0 1 inh up del: show_nat.simps)
qed

text \<open>
  What \<open>where({k: [a, b]})\<close> keeps among rows whose field \<open>k\<close> is not an array with
  holes: exactly the rows whose field \<open>k\<close> is an array of two elements, the first
  \<open>===\<close> to \<open>a\<close> and the second \<open>===\<close> to \<open>b\<close>.
\<close>

lemma where_array_without_holes:
  assumes "\<forall>r \<in> set (rows q). \<forall>arr. get_prop h r k = JRef (JArray arr) \<longrightarrow> no_holes arr"
  shows "rows (Query_where h (Conditions (JObject ref [(k, JRef (JArray (Array rc [Some a, Some b])))])) q) =
     filter (\<lambda>r. \<exists>ra x y. get_prop h r k = JRef (JArray (Array ra [Some x, Some y]))
                   \<and> strict_eq x a \<and> strict_eq y b)
       (rows q)"
proof -
  have *: "validateColumnCondition h ign r k (JRef (JArray (Array rc [Some a, Some b]))) \<longleftrightarrow>
      (\<exists>ra x y. get_prop h r k = JRef (JArray (Array ra [Some x, Some y]))
         \<and> strict_eq x a \<and> strict_eq y b)"
    if r: "r \<in> set (rows q)" for r ign
  proof -
    have len2: "compareArrays h arr (Array rc [Some a, Some b]) \<longleftrightarrow>
        (\<exists>ra x y. arr = Array ra [Some x, Some y] \<and> strict_eq x a \<and> strict_eq y b)"
      if "no_holes arr" for arr
    proof -
      obtain ra xs where arr: "arr = Array ra xs" by (cases arr)
      show ?thesis
      proof (cases xs)
        case Nil
        with arr that show ?thesis by (simp add: compareArrays_no_holes)
      next
        case (Cons x ys)
        with arr that show ?thesis
          by (cases ys; cases x)
             (auto simp: compareArrays_no_holes no_holes_def less_Suc_eq all_conj_distrib)
      qed
    qed
    have "no_holes arr" if "get_prop h r k = JRef (JArray arr)" for arr
      using assms r that by blast
    then show ?thesis
      unfolding validateColumnCondition.simps [of h ign r k] Let_def
      by (cases "get_prop h r k") (auto simp: len2 split: jsobj.splits)
  qed
  show ?thesis
    unfolding rows_where_Conditions validate_single
    by (rule filter_cong) (simp_all add: *)
qed

section \<open>Numeric arguments of skip and limit\<close>

text \<open>
  C5. \<open>skip(-1)\<close> throws \<open>InvalidArgumentError\<close> expecting "equal or greater than 0" and
  \<open>limit(1.5)\<close> throws it expecting "an integer"; the query is as it was after the
  failed call. For every number \<open>n\<close>, \<open>skip(n)\<close> and \<open>limit(n)\<close> throw exactly when
  \<open>n\<close> is not a safe integer or is less than 0, and otherwise store \<open>n\<close> in \<open>startAt\<close>,
  respectively in the limit.
\<close>

theorem skip_limit_validation:
  "Query_skip h (Fin (- 1)) q =
     Inl (InvalidArgumentError ''skip'' 0 (Prim (JNumber (Fin (- 1)))) ''equal or greater than 0'')
   \<and> Query_limit h (Fin (3 / 2)) q =
     Inl (InvalidArgumentError ''limit'' 0 (Prim (JNumber (Fin (3 / 2)))) ''an integer'')
   \<and> state_after h q (Skip (Fin (- 1))) = q
   \<and> state_after h q (Limit (Fin (3 / 2))) = q
   \<and> ((\<exists>e. Query_skip h n q = Inl e) \<longleftrightarrow> \<not> Number_isSafeInteger (Prim (JNumber n)) \<or> num_lt n (Fin 0))
   \<and> ((\<exists>e. Query_limit h n q = Inl e) \<longleftrightarrow> \<not> Number_isSafeInteger (Prim (JNumber n)) \<or> num_lt n (Fin 0))
   \<and> (\<not> (\<not> Number_isSafeInteger (Prim (JNumber n)) \<or> num_lt n (Fin 0)) \<longrightarrow>
        Query_skip h n q = Inr (q\<lparr>startAt := n\<rparr>) \<and> Query_limit h n q = Inr (q\<lparr>limitValue := Some n\<rparr>))
   \<and> ((\<exists>e. Query_skip h n q = Inl e) \<longrightarrow> state_after h q (Skip n) = q)
   \<and> ((\<exists>e. Query_limit h n q = Inl e) \<longrightarrow> state_after h q (Limit n) = q)"
  by (auto simp: Query_skip_def Query_limit_def checks_skip state_after_def)

theorem skip_limit_validation_witness:
  "Query_skip plain_host (Fin 2) (Query_from []) = Inr ((Query_from [])\<lparr>startAt := Fin 2\<rparr>)
   \<and> (\<exists>e. Query_skip plain_host NaN (Query_from []) = Inl e)"
  using skip_limit_validation [of plain_host "Query_from []" "Fin 2"]
    skip_limit_validation [of plain_host "Query_from []" NaN]
  by simp

section \<open>Extraction leaves the query alone\<close>

text \<open>
  C8. Each of \<open>all\<close>, \<open>first\<close>, \<open>last\<close>, \<open>count\<close>, \<open>exists\<close>, \<open>scalar\<close>, \<open>column\<close> and
  \<open>values\<close> returns the query state it was called on, and called again on the state
  it leaves behind returns the same result.
\<close>

theorem extraction_frame:
  "snd (Query_all q) = q \<and> snd (Query_first q) = q \<and> snd (Query_last q) = q
   \<and> snd (Query_count q) = q \<and> snd (Query_exists q) = q \<and> snd (Query_scalar h q) = q
   \<and> snd (Query_column h q) = q \<and> snd (Query_values h q) = q
   \<and> fst (Query_all (snd (Query_all q))) = fst (Query_all q)
   \<and> fst (Query_first (snd (Query_first q))) = fst (Query_first q)
   \<and> fst (Query_last (snd (Query_last q))) = fst (Query_last q)
   \<and> fst (Query_count (snd (Query_count q))) = fst (Query_count q)
   \<and> fst (Query_exists (snd (Query_exists q))) = fst (Query_exists q)
   \<and> fst (Query_scalar h (snd (Query_scalar h q))) = fst (Query_scalar h q)
   \<and> fst (Query_column h (snd (Query_column h q))) = fst (Query_column h q)
   \<and> fst (Query_values h (snd (Query_values h q))) = fst (Query_values h q)"
proof -
  have a: "snd (Query_all q) = q" by (simp add: Query_all_def snd_getLimitedRows)
  have l: "snd (Query_last q) = q"
    by (simp add: Query_last_def Query_getLimitedRows_def Query_count_def)
  have e: "snd (Query_exists q) = q"
    by (simp add: Query_exists_def Query_count_def Query_getLimitedRows_def)
  have s: "snd (Query_scalar h q) = q"
    by (simp add: Query_scalar_def Query_first_def Query_getFirstColumn_def
        Query_getLimitedRows_def split: prod.splits)
  have c: "snd (Query_column h q) = q"
    by (simp add: Query_column_def Query_first_def Query_getFirstColumn_def
        Query_getLimitedRows_def split: prod.splits option.splits)
  have v: "snd (Query_values h q) = q"
    by (simp add: Query_values_def Query_getLimitedRows_def)
  show ?thesis
    by (simp add: a l e s c v snd_first snd_count)
qed

theorem extraction_frame_witness:
  "snd (Query_scalar plain_host (Query_from [JObject 1 [(''a'', Prim (JNumber (Fin 1)))]])) =
     Query_from [JObject 1 [(''a'', Prim (JNumber (Fin 1)))]]"
  using extraction_frame [where h = plain_host
      and q = "Query_from [JObject 1 [(''a'', Prim (JNumber (Fin 1)))]]"]
  by simp

section \<open>The rows never grow\<close>

text \<open>
  C9. After \<open>from\<close> and any sequence of \<open>select\<close>, \<open>where\<close>, \<open>filterWhere\<close>,
  \<open>orderBy\<close>, \<open>skip\<close> and \<open>limit\<close> calls the query has at most as many rows as the
  input: \<open>from\<close> takes the input as it is, the filters only remove rows, \<open>orderBy\<close>
  permutes them, and the other calls do not touch them.
\<close>

theorem rows_never_grow:
  "length (rows (run h ops (Query_from input))) \<le> length input
   \<and> rows (Query_from input) = input
   \<and> mset (rows (Query_where h c q)) \<subseteq># mset (rows q)
   \<and> mset (rows (Query_filterWhere h c q)) \<subseteq># mset (rows q)
   \<and> mset (rows (Query_orderBy h cols q)) = mset (rows q)
   \<and> rows (Query_select sel q) = rows q
   \<and> (Query_skip h n q = Inr q' \<longrightarrow> rows q' = rows q)
   \<and> (Query_limit h n q = Inr q' \<longrightarrow> rows q' = rows q)"
proof -
  have "length (rows (run h ops (Query_from input))) \<le> length (rows (Query_from input))"
    by (rule length_rows_run)
  then have 1: "length (rows (run h ops (Query_from input))) \<le> length input"
    by (simp add: Query_from_def)
  show ?thesis
    using 1 rows_skip rows_limit
    by (auto simp: Query_from_def Query_where_def Query_filterWhere_def Query_filterRows_def
        Query_orderBy_def Query_select_def mset_Array_sort)
qed

theorem rows_never_grow_witness:
  "length (rows (run plain_host
       [Where (Conditions (JObject 9 [(''a'', Prim (JNumber (Fin 1)))])), OrderBy [''a''], Skip (Fin 1)]
       (Query_from [JObject 1 [(''a'', Prim (JNumber (Fin 1)))], JObject 2 [(''a'', Prim (JNumber (Fin 2)))]])))
     \<le> 2"
  using rows_never_grow [of plain_host
       "[Where (Conditions (JObject 9 [(''a'', Prim (JNumber (Fin 1)))])), OrderBy [''a''], Skip (Fin 1)]"
       "[JObject 1 [(''a'', Prim (JNumber (Fin 1)))], JObject 2 [(''a'', Prim (JNumber (Fin 2)))]]"
       "Callback 0" "Query_from []" "[]" "Column ''a''" "Fin 0" "Query_from []"]
  by simp

section \<open>The scalar result\<close>

text \<open>
  C6, as the code has it. \<open>scalar\<close> returns \<open>false\<close> when the window is empty or when
  no column is selected and the first row of the window has no field. Otherwise, for
  the first selected column, or without a selection the first field of the first row
  of the window, and when that name is not the empty string: \<open>scalar\<close> returns the
  value of that column in the first row of the window, and \<open>false\<close> in place of a
  value that is \<open>null\<close> or \<open>undefined\<close>.
\<close>

theorem scalar_result:
  "(fst (Query_all q) = [] \<longrightarrow> fst (Query_scalar h q) = Prim (JBoolean False))
   \<and> (fst (Query_all q) = obj # rest \<and> columns q = [] \<and> Object_keys obj = [] \<longrightarrow>
        fst (Query_scalar h q) = Prim (JBoolean False))
   \<and> (fst (Query_all q) = obj # rest
        \<and> (columns q = k # cs \<or> columns q = [] \<and> Object_keys obj = k # ks) \<and> k \<noteq> [] \<longrightarrow>
        fst (Query_scalar h q) =
          (if get_prop h obj k = Prim JNull \<or> get_prop h obj k = Prim JUndefined
           then Prim (JBoolean False) else get_prop h obj k))"
  by (auto simp: Query_scalar_def Query_first_def Query_getFirstColumn_def getLimitedRows_all
      or_false_def)

theorem scalar_result_witness:
  "fst (Query_scalar plain_host (Query_from [JObject 1 [(''id'', Prim (JString ''1'')), (''p'', Prim (JNumber (Fin 1)))]]))
     = Prim (JString ''1'')"
  using scalar_result [where q = "Query_from [JObject 1 [(''id'', Prim (JString ''1'')), (''p'', Prim (JNumber (Fin 1)))]]"
      and obj = "JObject 1 [(''id'', Prim (JString ''1'')), (''p'', Prim (JNumber (Fin 1)))]"
      and rest = "[]" and k = "''id''" and cs = "[]" and ks = "[''p'']" and h = plain_host]
  by (simp add: Query_from_def Query_all_def Query_getLimitedRows_def slice_upto_absent
      Array_slice_def Object_keys_def get_prop_def)

text \<open>
  C6 as stated fails where the value is \<open>null\<close>: the only row is \<open>{a: null}\<close>, the first
  column is \<open>a\<close>, its value in the first row is \<open>null\<close>, and \<open>scalar\<close> returns \<open>false\<close>.
\<close>

theorem scalar_null_counterexample:
  "fst (Query_first (Query_from [JObject 1 [(''a'', Prim JNull)]])) = Some (JObject 1 [(''a'', Prim JNull)])
   \<and> fst (Query_getFirstColumn (Query_from [JObject 1 [(''a'', Prim JNull)]])) = Some ''a''
   \<and> get_prop plain_host (JObject 1 [(''a'', Prim JNull)]) ''a'' = Prim JNull
   \<and> fst (Query_scalar plain_host (Query_from [JObject 1 [(''a'', Prim JNull)]])) = Prim (JBoolean False)
   \<and> fst (Query_scalar plain_host (Query_from [JObject 1 [(''a'', Prim JNull)]])) \<noteq>
       get_prop plain_host (JObject 1 [(''a'', Prim JNull)]) ''a''"
  by (simp add: Query_scalar_def Query_first_def Query_getFirstColumn_def Query_getLimitedRows_def
      Query_from_def Array_slice_def or_false_def Object_keys_def get_prop_def)

section \<open>Ordering\<close>




end
